theory Spec2Isabelle
  imports Main "HOL-Library.AList" "HOL-Library.Sublist"
begin

section \<open>The dynamic plugin loader (plugin-loader.ts)\<close>

text \<open>
  A shallow embedding of \<^verbatim>\<open>runtime/plugin-loader.ts\<close>. The module keeps one
  process-wide \<^verbatim>\<open>pluginMap\<close>, appends script elements to the document, settles the
  promise returned by \<^verbatim>\<open>loadDynamicPlugin\<close> from DOM event handlers, and talks to its
  collaborators (the plugin store, the shared-module initializer, the code-reference resolver,
  the manifest fetcher, the dependency resolver and the error reporter). All of that is made
  explicit: the functions below take a \<open>world\<close> and return the world they leave behind.
\<close>

subsection \<open>Data\<close>

text \<open>
  An extension declaration and a remote entry module are opaque to the loader: it only hands
  them to its collaborators.
\<close>

datatype extension = Extension string

datatype RemoteEntryModule = RemoteEntryModule string

record ConsolePluginManifestJSON =
  name :: string
  version :: string
  extensions :: "extension list"

record ConsolePluginData =
  manifest :: ConsolePluginManifestJSON
  entryCallbackFired :: bool

text \<open>The part of a \<^verbatim>\<open>URL\<close> object the loader touches: its query, next to everything else.\<close>

record URL =
  href_base :: string
  search :: string

text \<open>
  What the module imports from files that are not part of the excerpt, and the global it reads:
  \<^verbatim>\<open>getPluginID\<close> (plugin-utils), \<^verbatim>\<open>remoteEntryFile\<close> (constants),
  \<^verbatim>\<open>resolveURL\<close> (utils/url) and \<^verbatim>\<open>window.SERVER_FLAGS.basePath\<close>.
  They are parameters of the model; the theorems hold for every choice of them unless a
  hypothesis says otherwise. \<^verbatim>\<open>resolveURL\<close> is taken to return a string: a base URL
  that makes it throw is outside the model.
\<close>

record deps =
  getPluginID :: "ConsolePluginManifestJSON \<Rightarrow> string"
  remoteEntryFile :: string
  resolveURL :: "string \<Rightarrow> string \<Rightarrow> (URL \<Rightarrow> URL) \<Rightarrow> string"
  basePath :: string

datatype dom_event = Event string

text \<open>
  Values that are thrown or used as rejection reasons. \<open>TypeError p\<close> is what reading
  property \<open>p\<close> of \<^verbatim>\<open>undefined\<close> throws.
\<close>

datatype js_error =
    Error string
  | ErrorWithCause string dom_event
  | TypeError string

datatype promise = Pending | Resolved string | Rejected js_error

text \<open>
  A script element created by \<^verbatim>\<open>loadDynamicPlugin\<close>. Its two handlers are closures
  over \<^verbatim>\<open>pluginID\<close>, \<^verbatim>\<open>scriptURL\<close> (the value of \<open>src\<close>) and the
  \<^verbatim>\<open>resolve\<close>/\<^verbatim>\<open>reject\<close> pair of the promise; the captured identifier and the
  promise are stored with the element.
\<close>

record HTMLScriptElement =
  id_attr :: string
  src :: string
  async :: bool
  closure_pluginID :: string
  closure_promise :: nat

text \<open>Calls received by the collaborators, in the order they are made.\<close>

datatype call =
    FetchPluginManifest string
  | GetAllowedDynamicPluginNames
  | ResolvePluginDependencies ConsolePluginManifestJSON
  | InitSharedPluginModules RemoteEntryModule
  | ResolveEncodedCodeRefs "extension list" RemoteEntryModule string
  | AddDynamicPlugin string ConsolePluginManifestJSON "extension list"
  | SetDynamicPluginEnabled string bool
  | OnError string js_error

datatype console_entry =
    ConsoleInfo string
  | ConsoleError string "js_error option"

text \<open>
  \<open>pluginMap\<close> is the JavaScript \<^verbatim>\<open>Map\<close>: an association list in insertion order with
  one entry per key (\<^verbatim>\<open>set\<close> is \<open>AList.update\<close>, \<^verbatim>\<open>get\<close> is \<open>map_of\<close>,
  \<^verbatim>\<open>values()\<close> is \<open>map snd\<close>). \<open>document_head\<close> holds the script elements appended
  to the document, \<open>loadPluginEntry\<close> says whether \<^verbatim>\<open>window.loadPluginEntry\<close> is bound,
  \<open>promises\<close> holds the state of every promise created by \<^verbatim>\<open>loadDynamicPlugin\<close>.
\<close>

record world =
  pluginMap :: "(string \<times> ConsolePluginData) list"
  document_head :: "HTMLScriptElement list"
  loadPluginEntry :: bool
  promises :: "promise list"
  calls :: "call list"
  console :: "console_entry list"

subsection \<open>Promises\<close>

definition new_Promise :: "world \<Rightarrow> nat \<times> world" where
  "new_Promise w = (length (promises w), w\<lparr>promises := promises w @ [Pending]\<rparr>)"

definition promise_state :: "world \<Rightarrow> nat \<Rightarrow> promise" where
  "promise_state w p = (if p < length (promises w) then promises w ! p else Pending)"

text \<open>Only the first \<^verbatim>\<open>resolve\<close> or \<^verbatim>\<open>reject\<close> of a promise takes effect.\<close>

definition settle :: "nat \<Rightarrow> promise \<Rightarrow> world \<Rightarrow> world" where
  "settle p st w =
     (if p < length (promises w) \<and> promises w ! p = Pending
      then w\<lparr>promises := (promises w)[p := st]\<rparr> else w)"

definition resolve :: "nat \<Rightarrow> string \<Rightarrow> world \<Rightarrow> world" where
  "resolve p v w = settle p (Resolved v) w"

definition reject :: "nat \<Rightarrow> js_error \<Rightarrow> world \<Rightarrow> world" where
  "reject p e w = settle p (Rejected e) w"

subsection \<open>Script injection\<close>

definition scriptIDPrefix :: string where
  "scriptIDPrefix = ''console-plugin''"

definition getScriptElementID :: "ConsolePluginManifestJSON \<Rightarrow> string" where
  "getScriptElementID m = scriptIDPrefix @ ''-'' @ name m"

text \<open>
  \<^verbatim>\<open>loadDynamicPlugin(baseURL, manifest)\<close>. The executor of the promise runs at once;
  the result is the promise and the world after the executor. \<open>token\<close> is the value that
  \<^verbatim>\<open>getRandomChars()\<close> returns on this call: the generator is not part of the excerpt and
  is random, so its output is an input of the model.
\<close>

definition loadDynamicPlugin ::
  "deps \<Rightarrow> string \<Rightarrow> string \<Rightarrow> ConsolePluginManifestJSON \<Rightarrow> world \<Rightarrow> nat \<times> world" where
  "loadDynamicPlugin d token baseURL m w =
     (let (p, w0) = new_Promise w;
          pluginID = getPluginID d m;
          existingPluginData =
            find (\<lambda>pd. name (manifest pd) = name m) (map snd (pluginMap w0))
      in case existingPluginData of
           Some pd \<Rightarrow>
             (p, reject p (Error (''Attempt to reload plugin '' @ getPluginID d (manifest pd)
                                   @ '' with '' @ pluginID)) w0)
         | None \<Rightarrow>
             (let w1 = w0\<lparr>pluginMap :=
                         AList.update pluginID \<lparr>manifest = m, entryCallbackFired = False\<rparr>
                           (pluginMap w0)\<rparr>;
                  scriptURL = resolveURL d baseURL (remoteEntryFile d)
                                (\<lambda>url. url\<lparr>search := ''?cacheBuster='' @ token\<rparr>);
                  script = \<lparr>id_attr = getScriptElementID m, src = scriptURL, async = True,
                            closure_pluginID = pluginID, closure_promise = p\<rparr>;
                  w2 = w1\<lparr>console := console w1 @
                         [ConsoleInfo (''Loading entry script for plugin '' @ pluginID)]\<rparr>
              in (p, w2\<lparr>document_head := document_head w2 @ [script]\<rparr>)))"

text \<open>
  \<^verbatim>\<open>script.onload\<close>: \<^verbatim>\<open>pluginMap.get(pluginID).entryCallbackFired\<close> is read with no
  check that \<^verbatim>\<open>get\<close> found a record; on \<^verbatim>\<open>undefined\<close> the handler throws. The first
  component of the result is the exception that leaves the handler, if any.
\<close>

definition script_onload :: "HTMLScriptElement \<Rightarrow> world \<Rightarrow> js_error option \<times> world" where
  "script_onload s w =
     (case map_of (pluginMap w) (closure_pluginID s) of
        None \<Rightarrow> (Some (TypeError ''entryCallbackFired''), w)
      | Some pd \<Rightarrow>
          if entryCallbackFired pd
          then (None, resolve (closure_promise s) (closure_pluginID s) w)
          else (None, reject (closure_promise s)
                        (Error (''Entry script for plugin '' @ closure_pluginID s
                                @ '' loaded without callback'')) w))"

definition script_onerror :: "HTMLScriptElement \<Rightarrow> dom_event \<Rightarrow> world \<Rightarrow> world" where
  "script_onerror s event w =
     reject (closure_promise s)
       (ErrorWithCause (''Error while loading plugin entry script from '' @ src s) event) w"

subsection \<open>The entry callback\<close>

text \<open>
  The function returned by \<^verbatim>\<open>getPluginEntryCallback\<close>, in two parts. \<open>entry_guard\<close> is
  the code up to and including \<^verbatim>\<open>pluginData.entryCallbackFired = true\<close>: it returns
  \<open>Inl\<close> when the callback returns early, and otherwise the record and the world in which the
  rest of the callback runs. \<open>entry_body\<close> is the rest. The store the callback is bound to
  is the one whose calls the world records. The initializer returns the exception it throws,
  if any; the resolver returns the exception it throws, or the resolved extensions and the
  number of times it invoked the error callback it was given.
\<close>

definition entry_guard :: "string \<Rightarrow> world \<Rightarrow> world + ConsolePluginData \<times> world" where
  "entry_guard pluginID w =
     (case map_of (pluginMap w) pluginID of
        None \<Rightarrow>
          Inl (w\<lparr>console := console w @
                 [ConsoleError (''Received callback for unknown plugin '' @ pluginID) None]\<rparr>)
      | Some pluginData \<Rightarrow>
          if entryCallbackFired pluginData
          then Inl (w\<lparr>console := console w @
                      [ConsoleError (''Received callback for already loaded plugin '' @ pluginID)
                         None]\<rparr>)
          else Inr (pluginData\<lparr>entryCallbackFired := True\<rparr>,
                    w\<lparr>pluginMap := AList.update pluginID
                                     (pluginData\<lparr>entryCallbackFired := True\<rparr>) (pluginMap w)\<rparr>))"

definition entry_body ::
  "(RemoteEntryModule \<Rightarrow> js_error option) \<Rightarrow>
   (extension list \<Rightarrow> RemoteEntryModule \<Rightarrow> string \<Rightarrow> js_error + extension list \<times> nat) \<Rightarrow>
   string \<Rightarrow> RemoteEntryModule \<Rightarrow> ConsolePluginData \<Rightarrow> world \<Rightarrow> js_error option \<times> world" where
  "entry_body initSharedPluginModulesCallback resolveEncodedCodeRefsCallback
       pluginID entryModule pluginData w =
     (let w1 = w\<lparr>calls := calls w @ [InitSharedPluginModules entryModule]\<rparr>
      in case initSharedPluginModulesCallback entryModule of
           Some error \<Rightarrow>
             (None, w1\<lparr>console := console w1 @
                      [ConsoleError (''Failed to initialize shared modules for plugin ''
                                     @ pluginID) (Some error)]\<rparr>)
         | None \<Rightarrow>
             (let w2 = w1\<lparr>calls := calls w1 @
                          [ResolveEncodedCodeRefs (extensions (manifest pluginData))
                             entryModule pluginID]\<rparr>
              in case resolveEncodedCodeRefsCallback (extensions (manifest pluginData))
                        entryModule pluginID of
                   Inl thrown \<Rightarrow> (Some thrown, w2)
                 | Inr (resolvedExtensions, n) \<Rightarrow>
                     (let w3 = w2\<lparr>console := console w2 @
                                  replicate n
                                    (ConsoleError (''Code reference resolution failed for plugin ''
                                                   @ pluginID) None)\<rparr>
                      in (None, w3\<lparr>calls := calls w3 @
                                    [AddDynamicPlugin pluginID (manifest pluginData)
                                       resolvedExtensions]\<rparr>))))"

definition getPluginEntryCallback ::
  "(RemoteEntryModule \<Rightarrow> js_error option) \<Rightarrow>
   (extension list \<Rightarrow> RemoteEntryModule \<Rightarrow> string \<Rightarrow> js_error + extension list \<times> nat) \<Rightarrow>
   string \<Rightarrow> RemoteEntryModule \<Rightarrow> world \<Rightarrow> js_error option \<times> world" where
  "getPluginEntryCallback initSharedPluginModulesCallback resolveEncodedCodeRefsCallback
       pluginID entryModule w =
     (case entry_guard pluginID w of
        Inl w' \<Rightarrow> (None, w')
      | Inr (pluginData, w') \<Rightarrow>
          entry_body initSharedPluginModulesCallback resolveEncodedCodeRefsCallback
            pluginID entryModule pluginData w')"

definition registerPluginEntryCallback :: "world \<Rightarrow> world" where
  "registerPluginEntryCallback w = w\<lparr>loadPluginEntry := True\<rparr>"

subsection \<open>Test utilities\<close>

definition getStateForTestPurposes :: "world \<Rightarrow> (string \<times> ConsolePluginData) list" where
  "getStateForTestPurposes w = pluginMap w"

definition resetStateAndEnvForTestPurposes :: "world \<Rightarrow> world" where
  "resetStateAndEnvForTestPurposes w =
     w\<lparr>pluginMap := [],
       document_head := filter (\<lambda>element. \<not> prefix scriptIDPrefix (id_attr element))
                          (document_head w),
       loadPluginEntry := False\<rparr>"

subsection \<open>Events\<close>

text \<open>
  What can happen to the loader between two of its own steps: a script element fires
  \<^verbatim>\<open>load\<close> or \<^verbatim>\<open>error\<close>, injected code calls \<^verbatim>\<open>window.loadPluginEntry\<close>,
  somebody calls \<^verbatim>\<open>loadDynamicPlugin\<close>, or the state is reset. An exception that leaves
  an event handler is reported by the browser and changes nothing in the world; a call of
  \<^verbatim>\<open>window.loadPluginEntry\<close> while it is unbound fails in the caller.
\<close>

datatype event =
    ScriptLoad HTMLScriptElement
  | ScriptError HTMLScriptElement dom_event
  | PluginEntry string RemoteEntryModule
  | LoadDynamicPlugin string string ConsolePluginManifestJSON
  | Reset

definition run_event ::
  "deps \<Rightarrow> (RemoteEntryModule \<Rightarrow> js_error option) \<Rightarrow>
   (extension list \<Rightarrow> RemoteEntryModule \<Rightarrow> string \<Rightarrow> js_error + extension list \<times> nat) \<Rightarrow>
   event \<Rightarrow> world \<Rightarrow> world" where
  "run_event d init res ev w =
     (case ev of
        ScriptLoad s \<Rightarrow> snd (script_onload s w)
      | ScriptError s e \<Rightarrow> script_onerror s e w
      | PluginEntry pluginID entryModule \<Rightarrow>
          if loadPluginEntry w then snd (getPluginEntryCallback init res pluginID entryModule w)
          else w
      | LoadDynamicPlugin token baseURL m \<Rightarrow> snd (loadDynamicPlugin d token baseURL m w)
      | Reset \<Rightarrow> resetStateAndEnvForTestPurposes w)"

fun run_events ::
  "deps \<Rightarrow> (RemoteEntryModule \<Rightarrow> js_error option) \<Rightarrow>
   (extension list \<Rightarrow> RemoteEntryModule \<Rightarrow> string \<Rightarrow> js_error + extension list \<times> nat) \<Rightarrow>
   event list \<Rightarrow> world \<Rightarrow> world" where
  "run_events d init res [] w = w"
| "run_events d init res (ev # evs) w = run_events d init res evs (run_event d init res ev w)"

text \<open>
  \<^verbatim>\<open>await\<close> on the promise of \<^verbatim>\<open>loadDynamicPlugin\<close>: events are taken one at a time
  until the promise is settled; the awaiting function continues in the world of that moment.
  The result is the state of the promise and the world when the wait ends; the state is
  \<open>Pending\<close> when the events are used up before the promise is settled.
\<close>

fun await_promise ::
  "deps \<Rightarrow> (RemoteEntryModule \<Rightarrow> js_error option) \<Rightarrow>
   (extension list \<Rightarrow> RemoteEntryModule \<Rightarrow> string \<Rightarrow> js_error + extension list \<times> nat) \<Rightarrow>
   nat \<Rightarrow> event list \<Rightarrow> world \<Rightarrow> promise \<times> world" where
  "await_promise d init res p [] w = (promise_state w p, w)"
| "await_promise d init res p (ev # evs) w =
     (case promise_state w p of
        Pending \<Rightarrow> await_promise d init res p evs (run_event d init res ev w)
      | st \<Rightarrow> (st, w))"

subsection \<open>Activation\<close>

definition onError :: "string \<Rightarrow> js_error \<Rightarrow> world \<Rightarrow> world" where
  "onError errorMessage errorCause w = w\<lparr>calls := calls w @ [OnError errorMessage errorCause]\<rparr>"

text \<open>
  \<^verbatim>\<open>loadAndEnablePlugin(pluginName, pluginStore, onError)\<close>. \<open>fetched\<close> is how the promise of
  \<^verbatim>\<open>fetchPluginManifest(url)\<close> settles (a rejection reason or the manifest), \<open>resolved\<close>
  how the promise of \<^verbatim>\<open>resolvePluginDependencies\<close> settles (a rejection reason or nothing),
  \<open>evs\<close> the events that arrive while the function waits for \<^verbatim>\<open>loadDynamicPlugin\<close>.
  The function has \<open>Returned\<close>, or it is still \<open>Suspended\<close> at its last \<^verbatim>\<open>await\<close> when
  the events are used up; either way the world it leaves is part of the result. The second
  and third argument of \<^verbatim>\<open>resolvePluginDependencies\<close> are computed before the call; of
  the two only the store call is recorded.
\<close>

datatype outcome = Returned world | Suspended world

fun world_of :: "outcome \<Rightarrow> world" where
  "world_of (Returned w) = w"
| "world_of (Suspended w) = w"

definition loadAndEnablePlugin ::
  "deps \<Rightarrow> (RemoteEntryModule \<Rightarrow> js_error option) \<Rightarrow>
   (extension list \<Rightarrow> RemoteEntryModule \<Rightarrow> string \<Rightarrow> js_error + extension list \<times> nat) \<Rightarrow>
   string \<Rightarrow> js_error + ConsolePluginManifestJSON \<Rightarrow> js_error option \<Rightarrow> string \<Rightarrow>
   event list \<Rightarrow> world \<Rightarrow> outcome" where
  "loadAndEnablePlugin d init res pluginName fetched resolved token evs w =
     (let url = basePath d @ ''api/plugins/'' @ pluginName @ ''/'';
          w1 = w\<lparr>calls := calls w @ [FetchPluginManifest url]\<rparr>
      in case fetched of
           Inl e \<Rightarrow>
             Returned (onError (''Failed to get a valid plugin manifest from '' @ url) e w1)
         | Inr m \<Rightarrow>
             (let w2 = w1\<lparr>calls := calls w1 @
                          [GetAllowedDynamicPluginNames, ResolvePluginDependencies m]\<rparr>
              in case resolved of
                   Some e \<Rightarrow>
                     Returned (onError (''Failed to resolve dependencies of plugin ''
                                        @ pluginName) e w2)
                 | None \<Rightarrow>
                     (let (p, w3) = loadDynamicPlugin d token url m w2
                      in case await_promise d init res p evs w3 of
                           (Pending, w4) \<Rightarrow> Suspended w4
                         | (Rejected e, w4) \<Rightarrow>
                             Returned (onError (''Failed to load entry script of plugin ''
                                                @ pluginName) e w4)
                         | (Resolved v, w4) \<Rightarrow>
                             Returned (w4\<lparr>calls := calls w4 @
                                          [SetDynamicPluginEnabled (getPluginID d m) True]\<rparr>))))"

text \<open>The calls that an activation makes itself, as opposed to those of the entry callback.\<close>

fun activation_call :: "call \<Rightarrow> bool" where
  "activation_call (FetchPluginManifest url) = True"
| "activation_call GetAllowedDynamicPluginNames = True"
| "activation_call (ResolvePluginDependencies m) = True"
| "activation_call (SetDynamicPluginEnabled pluginID enabled) = True"
| "activation_call (OnError errorMessage errorCause) = True"
| "activation_call (InitSharedPluginModules entryModule) = False"
| "activation_call (ResolveEncodedCodeRefs es entryModule pluginID) = False"
| "activation_call (AddDynamicPlugin pluginID m es) = False"

subsection \<open>The module at load time, and stand-ins for what the excerpt lacks\<close>

text \<open>The state when the module has just been loaded: \<^verbatim>\<open>pluginMap = new Map()\<close>.\<close>

definition initial_world :: world where
  "initial_world =
     \<lparr>pluginMap = [], document_head = [], loadPluginEntry = False, promises = [],
      calls = [], console = []\<rparr>"

text \<open>
  Modelled from the spec: \<^verbatim>\<open>getPluginID\<close> is imported from \<^verbatim>\<open>./plugin-utils\<close>, which is
  not in the excerpt. The spec derives the identifier from the manifest, ``name plus version'',
  and shows \<^verbatim>\<open>foo@1.0.0\<close> for plugin \<^verbatim>\<open>foo\<close> at version \<^verbatim>\<open>1.0.0\<close>.
\<close>

definition getPluginID_spec :: "ConsolePluginManifestJSON \<Rightarrow> string" where
  "getPluginID_spec m = name m @ ''@'' @ version m"

text \<open>
  Modelled from the spec: \<^verbatim>\<open>resolveURL\<close> is imported from \<^verbatim>\<open>../utils/url\<close>, which is not
  in the excerpt. The spec gives the remote entry resource as
  \<^verbatim>\<open><manifest base URL>/<well-known entry filename>?cacheBuster=<random token>\<close>: the entry
  file under the base URL, then whatever query the callback has set.
\<close>

definition resolveURL_spec :: "string \<Rightarrow> string \<Rightarrow> (URL \<Rightarrow> URL) \<Rightarrow> string" where
  "resolveURL_spec base to processURL =
     (let url = processURL \<lparr>href_base = base @ ''/'' @ to, search = ''''\<rparr>
      in href_base url @ search url)"

text \<open>
  Modelled from the spec: the constant \<^verbatim>\<open>remoteEntryFile\<close> and the host's
  \<^verbatim>\<open>SERVER_FLAGS.basePath\<close> are not in the excerpt, and the spec names no value for either
  (``a well-known entry file path'', ``the host's configured base path''). The values below
  are one choice, used where a concrete instance is evaluated.
\<close>

definition spec_deps :: deps where
  "spec_deps =
     \<lparr>getPluginID = getPluginID_spec, remoteEntryFile = ''plugin-entry.js'',
      resolveURL = resolveURL_spec, basePath = ''/''\<rparr>"

text \<open>
  A running example: plugin \<^verbatim>\<open>foo\<close> at version \<^verbatim>\<open>1.0.0\<close>, the world after
  \<open>loadDynamicPlugin\<close> has been called for it in the initial world, the script element that
  call appends, and collaborators for the entry callback: an initializer that succeeds, one
  that throws, and a resolver that returns the extensions as they are.
\<close>

definition example_manifest :: ConsolePluginManifestJSON where
  "example_manifest = \<lparr>name = ''foo'', version = ''1.0.0'', extensions = [Extension ''foo.nav'']\<rparr>"

definition example_pending :: world where
  "example_pending =
     snd (loadDynamicPlugin spec_deps ''k3x9qa'' ''https://cdn.example/foo'' example_manifest
            initial_world)"

definition example_script :: HTMLScriptElement where
  "example_script = last (document_head example_pending)"

definition init_ok :: "RemoteEntryModule \<Rightarrow> js_error option" where
  "init_ok entryModule = None"

definition init_throws :: "RemoteEntryModule \<Rightarrow> js_error option" where
  "init_throws entryModule = Some (Error ''init failed'')"

definition resolve_all ::
  "extension list \<Rightarrow> RemoteEntryModule \<Rightarrow> string \<Rightarrow> js_error + extension list \<times> nat" where
  "resolve_all es entryModule pluginID = Inr (es, 0)"

text \<open>
  The events that leave the record under key \<open>k\<close>, of a plugin named \<open>n\<close>, where it is: all
  but a reset and a call of \<^verbatim>\<open>loadDynamicPlugin\<close> for a plugin of another name whose
  identifier is \<open>k\<close> again (\<^verbatim>\<open>pluginMap.set\<close> would replace the record).
\<close>

fun leaves_record :: "deps \<Rightarrow> string \<Rightarrow> string \<Rightarrow> event \<Rightarrow> bool" where
  "leaves_record d k n Reset = False"
| "leaves_record d k n (LoadDynamicPlugin token baseURL m) = (name m = n \<or> getPluginID d m \<noteq> k)"
| "leaves_record d k n (ScriptLoad s) = True"
| "leaves_record d k n (ScriptError s e) = True"
| "leaves_record d k n (PluginEntry pluginID entryModule) = True"

section \<open>Properties\<close>

subsection \<open>Auxiliary facts\<close>

lemma find_update_fresh:
  "find P (map snd al) = None \<Longrightarrow> P v \<Longrightarrow> find P (map snd (AList.update k v al)) = Some v"
  by (induction al) (auto split: if_splits)

lemma find_present:
  "map_of al k = Some v \<Longrightarrow> P v \<Longrightarrow> find P (map snd al) \<noteq> None"
  by (induction al) (auto split: if_splits)

lemma settle_fresh:
  "settle (length (promises w)) st (w\<lparr>promises := promises w @ [Pending]\<rparr>) =
     w\<lparr>promises := promises w @ [st]\<rparr>"
  by (simp add: settle_def)

text \<open>The two branches of \<open>loadDynamicPlugin\<close>, in closed form.\<close>

lemma loadDynamicPlugin_fresh:
  assumes "find (\<lambda>pd. name (manifest pd) = name m) (map snd (pluginMap w)) = None"
  shows "loadDynamicPlugin d token baseURL m w =
     (length (promises w),
      w\<lparr>pluginMap := AList.update (getPluginID d m) \<lparr>manifest = m, entryCallbackFired = False\<rparr>
                       (pluginMap w),
        promises := promises w @ [Pending],
        console := console w @
          [ConsoleInfo (''Loading entry script for plugin '' @ getPluginID d m)],
        document_head := document_head w @
          [\<lparr>id_attr = getScriptElementID m,
            src = resolveURL d baseURL (remoteEntryFile d)
                    (\<lambda>url. url\<lparr>search := ''?cacheBuster='' @ token\<rparr>),
            async = True, closure_pluginID = getPluginID d m,
            closure_promise = length (promises w)\<rparr>]\<rparr>)"
  using assms by (simp add: loadDynamicPlugin_def new_Promise_def Let_def)

lemma loadDynamicPlugin_existing:
  assumes "find (\<lambda>pd. name (manifest pd) = name m) (map snd (pluginMap w)) = Some pd"
  shows "loadDynamicPlugin d token baseURL m w =
     (length (promises w),
      w\<lparr>promises := promises w @
          [Rejected (Error (''Attempt to reload plugin '' @ getPluginID d (manifest pd)
                            @ '' with '' @ getPluginID d m))]\<rparr>)"
  using assms by (simp add: loadDynamicPlugin_def new_Promise_def Let_def reject_def settle_fresh)

text \<open>The entry callback and the \<^verbatim>\<open>load\<close> handler, branch by branch.\<close>

lemma entry_guard_unknown:
  "map_of (pluginMap w) pluginID = None \<Longrightarrow>
   entry_guard pluginID w =
     Inl (w\<lparr>console := console w @
            [ConsoleError (''Received callback for unknown plugin '' @ pluginID) None]\<rparr>)"
  by (simp add: entry_guard_def)

lemma entry_guard_fired:
  "map_of (pluginMap w) pluginID = Some pd \<Longrightarrow> entryCallbackFired pd \<Longrightarrow>
   entry_guard pluginID w =
     Inl (w\<lparr>console := console w @
            [ConsoleError (''Received callback for already loaded plugin '' @ pluginID) None]\<rparr>)"
  by (simp add: entry_guard_def)

lemma entry_guard_first:
  "map_of (pluginMap w) pluginID = Some pd \<Longrightarrow> \<not> entryCallbackFired pd \<Longrightarrow>
   entry_guard pluginID w =
     Inr (pd\<lparr>entryCallbackFired := True\<rparr>,
          w\<lparr>pluginMap := AList.update pluginID (pd\<lparr>entryCallbackFired := True\<rparr>) (pluginMap w)\<rparr>)"
  by (simp add: entry_guard_def)

lemma entry_body_frame:
  "pluginMap (snd (entry_body init res pluginID entryModule pd w)) = pluginMap w"
  "promises (snd (entry_body init res pluginID entryModule pd w)) = promises w"
  "document_head (snd (entry_body init res pluginID entryModule pd w)) = document_head w"
  "loadPluginEntry (snd (entry_body init res pluginID entryModule pd w)) = loadPluginEntry w"
  by (simp_all add: entry_body_def Let_def split: option.splits sum.splits prod.splits)

lemma entry_body_calls:
  "prefix (calls w @ [InitSharedPluginModules entryModule])
     (calls (snd (entry_body init res pluginID entryModule pd w)))"
  by (simp add: entry_body_def Let_def prefix_def split: option.splits sum.splits prod.splits)

lemma getPluginEntryCallback_fired:
  "map_of (pluginMap w) pluginID = Some pd \<Longrightarrow> entryCallbackFired pd \<Longrightarrow>
   getPluginEntryCallback init res pluginID entryModule w =
     (None, w\<lparr>console := console w @
            [ConsoleError (''Received callback for already loaded plugin '' @ pluginID) None]\<rparr>)"
  by (simp add: getPluginEntryCallback_def entry_guard_fired)

lemma settle_pending:
  "p < length (promises w) \<Longrightarrow> promises w ! p = Pending \<Longrightarrow>
   settle p st w = w\<lparr>promises := (promises w)[p := st]\<rparr>"
  by (simp add: settle_def)

lemma script_onload_present:
  "map_of (pluginMap w) (closure_pluginID s) = Some pd \<Longrightarrow>
   script_onload s w =
     (None, settle (closure_promise s)
              (if entryCallbackFired pd then Resolved (closure_pluginID s)
               else Rejected (Error (''Entry script for plugin '' @ closure_pluginID s
                                     @ '' loaded without callback''))) w)"
  by (simp add: script_onload_def resolve_def reject_def)

lemma script_onload_absent:
  "map_of (pluginMap w) (closure_pluginID s) = None \<Longrightarrow>
   script_onload s w = (Some (TypeError ''entryCallbackFired''), w)"
  by (simp add: script_onload_def)

text \<open>What the events leave alone: the calls an activation makes itself, and calls already made.\<close>

lemma settle_frame:
  "pluginMap (settle p st w) = pluginMap w"
  "calls (settle p st w) = calls w"
  "document_head (settle p st w) = document_head w"
  "console (settle p st w) = console w"
  by (simp_all add: settle_def)

lemma script_onload_frame:
  "pluginMap (snd (script_onload s w)) = pluginMap w"
  "calls (snd (script_onload s w)) = calls w"
  by (simp_all add: script_onload_def resolve_def reject_def settle_frame split: option.splits)

lemma script_onerror_frame:
  "pluginMap (script_onerror s e w) = pluginMap w"
  "calls (script_onerror s e w) = calls w"
  by (simp_all add: script_onerror_def reject_def settle_frame)

lemma loadDynamicPlugin_calls:
  "calls (snd (loadDynamicPlugin d token baseURL m w)) = calls w"
  by (simp add: loadDynamicPlugin_def new_Promise_def reject_def settle_frame Let_def
        split: option.splits)

lemma entry_body_activation_calls:
  "filter activation_call (calls (snd (entry_body init res pluginID entryModule pd w))) =
     filter activation_call (calls w)"
  by (simp add: entry_body_def Let_def split: option.splits sum.splits prod.splits)

lemma entry_guard_calls:
  "entry_guard pluginID w = Inl w' \<Longrightarrow> calls w' = calls w"
  "entry_guard pluginID w = Inr (pd, w') \<Longrightarrow> calls w' = calls w"
  by (auto simp: entry_guard_def split: option.splits if_splits)

lemma getPluginEntryCallback_activation_calls:
  "filter activation_call (calls (snd (getPluginEntryCallback init res pluginID entryModule w))) =
     filter activation_call (calls w)"
  by (auto simp: getPluginEntryCallback_def entry_body_activation_calls entry_guard_calls
        split: sum.splits)

lemma run_event_activation_calls:
  "filter activation_call (calls (run_event d init res ev w)) = filter activation_call (calls w)"
  by (cases ev)
     (simp_all add: run_event_def script_onload_frame script_onerror_frame
        loadDynamicPlugin_calls getPluginEntryCallback_activation_calls
        resetStateAndEnvForTestPurposes_def)

lemma await_promise_activation_calls:
  "filter activation_call (calls (snd (await_promise d init res p evs w))) =
     filter activation_call (calls w)"
  by (induction evs arbitrary: w)
     (simp_all add: run_event_activation_calls split: promise.splits)

lemma entry_body_calls_prefix:
  "prefix (calls w) (calls (snd (entry_body init res pluginID entryModule pd w)))"
  by (simp add: entry_body_def Let_def prefix_def split: option.splits sum.splits prod.splits)

lemma getPluginEntryCallback_calls_prefix:
  "prefix (calls w) (calls (snd (getPluginEntryCallback init res pluginID entryModule w)))"
  using entry_body_calls_prefix
  by (auto simp: getPluginEntryCallback_def entry_guard_calls split: sum.splits
      dest!: entry_guard_calls(2) [symmetric])

lemma run_event_calls_prefix:
  "prefix (calls w) (calls (run_event d init res ev w))"
  by (cases ev)
     (simp_all add: run_event_def script_onload_frame script_onerror_frame
        loadDynamicPlugin_calls getPluginEntryCallback_calls_prefix
        resetStateAndEnvForTestPurposes_def)

lemma await_promise_calls_prefix:
  "prefix (calls w) (calls (snd (await_promise d init res p evs w)))"
proof (induction evs arbitrary: w)
  case Nil
  show ?case by simp
next
  case (Cons ev evs)
  show ?case
  proof (cases "promise_state w p")
    case Pending
    have "prefix (calls w) (calls (run_event d init res ev w))"
      by (rule run_event_calls_prefix)
    also have "prefix \<dots> (calls (snd (await_promise d init res p evs (run_event d init res ev w))))"
      by (rule Cons.IH)
    finally show ?thesis using Pending by simp
  qed simp_all
qed

text \<open>Which events keep the record of a key, with its manifest.\<close>

lemma getPluginEntryCallback_record:
  assumes "map_of (pluginMap w) k = Some pd"
  shows "\<exists>pd'. map_of (pluginMap (snd (getPluginEntryCallback init res pluginID entryModule w))) k
                 = Some pd' \<and> manifest pd' = manifest pd"
proof (cases "entry_guard pluginID w")
  case (Inl w')
  then have "pluginMap w' = pluginMap w"
    by (auto simp: entry_guard_def split: option.splits if_splits)
  with Inl assms show ?thesis
    by (simp add: getPluginEntryCallback_def)
next
  case (Inr r)
  obtain pd0 wg where r: "r = (pd0, wg)" by (cases r)
  from Inr r obtain pd1 where
    pd1: "map_of (pluginMap w) pluginID = Some pd1"
      and wg: "pluginMap wg = AList.update pluginID (pd1\<lparr>entryCallbackFired := True\<rparr>) (pluginMap w)"
    by (auto simp: entry_guard_def split: option.splits if_splits)
  have "\<exists>pd'. map_of (pluginMap wg) k = Some pd' \<and> manifest pd' = manifest pd"
    using assms pd1 by (cases "k = pluginID") (simp_all add: wg update_conv')
  with Inr r show ?thesis
    by (simp add: getPluginEntryCallback_def entry_body_frame)
qed

lemma loadDynamicPlugin_record:
  assumes "map_of (pluginMap w) k = Some pd"
    and "name m = name (manifest pd) \<or> getPluginID d m \<noteq> k"
  shows "map_of (pluginMap (snd (loadDynamicPlugin d token baseURL m w))) k = Some pd"
proof (cases "find (\<lambda>pd. name (manifest pd) = name m) (map snd (pluginMap w))")
  case None
  with find_present [OF assms(1), of "\<lambda>pd. name (manifest pd) = name m"]
  have "getPluginID d m \<noteq> k"
    using assms(2) by auto
  with assms(1) show ?thesis
    by (simp add: loadDynamicPlugin_fresh [OF None] update_conv')
next
  case (Some existing)
  with assms(1) show ?thesis
    by (simp add: loadDynamicPlugin_existing [OF Some])
qed

lemma run_event_record:
  assumes "map_of (pluginMap w) k = Some pd"
    and "leaves_record d k (name (manifest pd)) ev"
  shows "\<exists>pd'. map_of (pluginMap (run_event d init res ev w)) k = Some pd'
               \<and> manifest pd' = manifest pd"
proof (cases ev)
  case (PluginEntry pluginID entryModule)
  with assms(1) getPluginEntryCallback_record [OF assms(1), of init res pluginID entryModule]
  show ?thesis
    by (simp add: run_event_def)
next
  case (LoadDynamicPlugin token baseURL m)
  with assms loadDynamicPlugin_record [of w k pd m d token baseURL]
  show ?thesis
    by (simp add: run_event_def)
qed (use assms in \<open>simp_all add: run_event_def script_onload_frame script_onerror_frame\<close>)

lemma run_events_record:
  assumes "map_of (pluginMap w) k = Some pd"
    and "\<forall>ev\<in>set evs. leaves_record d k (name (manifest pd)) ev"
  shows "\<exists>pd'. map_of (pluginMap (run_events d init res evs w)) k = Some pd'
               \<and> manifest pd' = manifest pd"
  using assms
proof (induction evs arbitrary: w pd)
  case Nil
  then show ?case by simp
next
  case (Cons ev evs)
  from run_event_record [of w k pd d ev init res] Cons.prems
  obtain pd1 where step: "map_of (pluginMap (run_event d init res ev w)) k = Some pd1"
    and same: "manifest pd1 = manifest pd"
    by auto
  from Cons.IH [OF step] Cons.prems(2) same
  show ?case by simp
qed

text \<open>
  With the identifier as the spec gives it, manifests whose names have no \<^verbatim>\<open>@\<close> in them
  and differ have different identifiers: for such names, and \<open>k\<close> the identifier of a
  manifest named \<open>n\<close>, \<open>leaves_record d k n\<close> holds of every call of
  \<open>loadDynamicPlugin\<close>.
\<close>

lemma getPluginID_spec_name:
  assumes "CHR ''@'' \<notin> set (name m)"
  shows "takeWhile (\<lambda>c. c \<noteq> CHR ''@'') (getPluginID_spec m) = name m"
proof -
  have "takeWhile (\<lambda>c. c \<noteq> CHR ''@'') (name m @ ''@'' @ version m) =
      name m @ takeWhile (\<lambda>c. c \<noteq> CHR ''@'') (''@'' @ version m)"
    using assms by (intro takeWhile_append2) auto
  then show ?thesis
    by (simp add: getPluginID_spec_def)
qed

lemma getPluginID_spec_no_clash:
  assumes "CHR ''@'' \<notin> set (name m)" and "CHR ''@'' \<notin> set (name m')"
    and "getPluginID_spec m = getPluginID_spec m'"
  shows "name m = name m'"
  using getPluginID_spec_name [OF assms(1)] getPluginID_spec_name [OF assms(2)] assms(3)
  by simp

text \<open>The running example, evaluated.\<close>

lemma example_pending_eq:
  "example_pending =
     \<lparr>pluginMap = [(''foo@1.0.0'', \<lparr>manifest = example_manifest, entryCallbackFired = False\<rparr>)],
      document_head =
        [\<lparr>id_attr = ''console-plugin-foo'',
          src = ''https://cdn.example/foo/plugin-entry.js?cacheBuster=k3x9qa'',
          async = True, closure_pluginID = ''foo@1.0.0'', closure_promise = 0\<rparr>],
      loadPluginEntry = False, promises = [Pending], calls = [],
      console = [ConsoleInfo ''Loading entry script for plugin foo@1.0.0'']\<rparr>"
  by (simp add: example_pending_def loadDynamicPlugin_def new_Promise_def initial_world_def
        spec_deps_def getPluginID_spec_def resolveURL_spec_def example_manifest_def
        getScriptElementID_def scriptIDPrefix_def Let_def)

lemma example_script_eq:
  "example_script =
     \<lparr>id_attr = ''console-plugin-foo'',
      src = ''https://cdn.example/foo/plugin-entry.js?cacheBuster=k3x9qa'',
      async = True, closure_pluginID = ''foo@1.0.0'', closure_promise = 0\<rparr>"
  by (simp add: example_script_def example_pending_eq)

subsection \<open>Duplicate loads\<close>

text \<open>
  Claim C1. Take two manifests with the same name and a world in which no record has that
  name, so that \<open>loadDynamicPlugin\<close> for the first manifest passes the duplicate check and
  inserts its record. A call for the second manifest in the world that the first call leaves
  returns a promise that is rejected with the error
  \<^verbatim>\<open>Attempt to reload plugin <first id> with <second id>\<close>, and the only difference between
  the world before and after the second call is that rejected promise: the registry and the
  script elements of the document are the same.
\<close>

theorem loadDynamicPlugin_duplicate_rejected:
  fixes m1 m2 :: ConsolePluginManifestJSON
  assumes "name m1 = name m2"
    and "find (\<lambda>pd. name (manifest pd) = name m1) (map snd (pluginMap w)) = None"
  shows "let w1 = snd (loadDynamicPlugin d t1 b1 m1 w);
             (p2, w2) = loadDynamicPlugin d t2 b2 m2 w1
         in promise_state w2 p2 =
              Rejected (Error (''Attempt to reload plugin '' @ getPluginID d m1
                               @ '' with '' @ getPluginID d m2))
          \<and> w2 = w1\<lparr>promises := promises w1 @ [promise_state w2 p2]\<rparr>
          \<and> pluginMap w2 = pluginMap w1
          \<and> document_head w2 = document_head w1"
proof -
  let ?rec = "\<lparr>manifest = m1, entryCallbackFired = False\<rparr>"
  let ?w1 = "snd (loadDynamicPlugin d t1 b1 m1 w)"
  have map1: "pluginMap ?w1 = AList.update (getPluginID d m1) ?rec (pluginMap w)"
    using assms(2) by (simp add: loadDynamicPlugin_fresh)
  have "find (\<lambda>pd. name (manifest pd) = name m2) (map snd (pluginMap ?w1)) = Some ?rec"
    unfolding map1 using assms by (intro find_update_fresh) simp_all
  from loadDynamicPlugin_existing [OF this, of d t2 b2]
  show ?thesis
    by (simp add: Let_def promise_state_def nth_append)
qed

theorem loadDynamicPlugin_duplicate_rejected_witness:
  "name example_manifest = name (example_manifest\<lparr>version := ''2.0.0''\<rparr>)
   \<and> find (\<lambda>pd. name (manifest pd) = name example_manifest) (map snd (pluginMap initial_world))
       = None
   \<and> loadDynamicPlugin spec_deps ''p0w7zz'' ''https://cdn.example/foo''
        (example_manifest\<lparr>version := ''2.0.0''\<rparr>) example_pending =
       (1, example_pending\<lparr>promises :=
             [Pending, Rejected (Error ''Attempt to reload plugin foo@1.0.0 with foo@2.0.0'')]\<rparr>)"
  using loadDynamicPlugin_duplicate_rejected
          [of example_manifest "example_manifest\<lparr>version := ''2.0.0''\<rparr>" initial_world
              spec_deps "''k3x9qa''" "''https://cdn.example/foo''"
              "''p0w7zz''" "''https://cdn.example/foo''"]
  by (simp add: example_pending_eq loadDynamicPlugin_def new_Promise_def reject_def settle_def
        initial_world_def spec_deps_def getPluginID_spec_def example_manifest_def Let_def)

subsection \<open>The entry callback\<close>

text \<open>
  Claim C6. When the registry has no record for the identifier, the entry callback returns
  normally (nothing is thrown to the caller) and all it does is log
  \<^verbatim>\<open>Received callback for unknown plugin <id>\<close> on the console: no collaborator is called, so
  the store receives nothing, and the registry, the document and the promises are as before.
\<close>

theorem entry_callback_unknown_plugin:
  assumes "map_of (pluginMap w) pluginID = None"
  shows "getPluginEntryCallback init res pluginID entryModule w =
           (None, w\<lparr>console := console w @
              [ConsoleError (''Received callback for unknown plugin '' @ pluginID) None]\<rparr>)"
  using assms by (simp add: getPluginEntryCallback_def entry_guard_unknown)

theorem entry_callback_unknown_plugin_witness:
  "map_of (pluginMap initial_world) ''foo@1.0.0'' = None
   \<and> getPluginEntryCallback init_ok resolve_all ''foo@1.0.0'' (RemoteEntryModule ''foo'')
        initial_world =
       (None, initial_world\<lparr>console :=
                [ConsoleError ''Received callback for unknown plugin foo@1.0.0'' None]\<rparr>)"
  using entry_callback_unknown_plugin
          [of initial_world "''foo@1.0.0''" init_ok resolve_all "RemoteEntryModule ''foo''"]
  by (simp add: initial_world_def)

text \<open>
  Claim C3. Take an identifier whose record is pending (present, callback not yet fired).
  The guard of the entry callback does not return early: it sets \<open>entryCallbackFired\<close> and
  has called no collaborator yet. In the world \<open>wg\<close> it leaves, in which the rest of the
  first invocation runs, an invocation for the same identifier is rejected: it only logs
  \<^verbatim>\<open>Received callback for already loaded plugin <id>\<close>. The first invocation as a whole
  is the rest of the callback run in \<open>wg\<close>; it calls the shared-module initializer and,
  when neither the initializer nor the resolver throws, the resolver and the store's
  \<^verbatim>\<open>addDynamicPlugin\<close>, once each. It leaves the flag set, and a second invocation after
  it, with whatever collaborators and module, is the same no-op: it calls neither the
  initializer nor the store.
\<close>

theorem entry_callback_fires_once:
  assumes "map_of (pluginMap w) pluginID = Some pd" and "\<not> entryCallbackFired pd"
  shows "case entry_guard pluginID w of
           Inl w' \<Rightarrow> False
         | Inr (pd', wg) \<Rightarrow>
             pd' = pd\<lparr>entryCallbackFired := True\<rparr>
           \<and> map_of (pluginMap wg) pluginID = Some pd'
           \<and> calls wg = calls w
           \<and> getPluginEntryCallback init2 res2 pluginID entryModule2 wg =
               (None, wg\<lparr>console := console wg @
                  [ConsoleError (''Received callback for already loaded plugin '' @ pluginID)
                     None]\<rparr>)
           \<and> (let (thrown, w1) = getPluginEntryCallback init res pluginID entryModule w
              in (thrown, w1) = entry_body init res pluginID entryModule pd' wg
               \<and> prefix (calls w @ [InitSharedPluginModules entryModule]) (calls w1)
               \<and> (\<forall>es n. init entryModule = None \<longrightarrow>
                      res (extensions (manifest pd)) entryModule pluginID = Inr (es, n) \<longrightarrow>
                      calls w1 = calls w @
                        [InitSharedPluginModules entryModule,
                         ResolveEncodedCodeRefs (extensions (manifest pd)) entryModule pluginID,
                         AddDynamicPlugin pluginID (manifest pd) es])
               \<and> map_of (pluginMap w1) pluginID = Some pd'
               \<and> getPluginEntryCallback init2 res2 pluginID entryModule2 w1 =
                   (None, w1\<lparr>console := console w1 @
                      [ConsoleError (''Received callback for already loaded plugin '' @ pluginID)
                         None]\<rparr>))"
proof -
  define pd' where "pd' = pd\<lparr>entryCallbackFired := True\<rparr>"
  define wg where "wg = w\<lparr>pluginMap := AList.update pluginID pd' (pluginMap w)\<rparr>"
  define r where "r = entry_body init res pluginID entryModule pd' wg"
  obtain thrown w1 where r: "r = (thrown, w1)"
    by (cases r)
  have guard: "entry_guard pluginID w = Inr (pd', wg)"
    using assms by (simp add: entry_guard_first pd'_def wg_def)
  have run: "getPluginEntryCallback init res pluginID entryModule w = (thrown, w1)"
    by (simp add: getPluginEntryCallback_def guard r_def [symmetric] r)
  have rec_g: "map_of (pluginMap wg) pluginID = Some pd'"
    by (simp add: wg_def update_conv')
  have calls_g: "calls wg = calls w"
    by (simp add: wg_def)
  have w1: "w1 = snd (entry_body init res pluginID entryModule pd' wg)"
    by (simp add: r_def [symmetric] r)
  have rec_1: "map_of (pluginMap w1) pluginID = Some pd'"
    by (simp add: w1 entry_body_frame rec_g)
  have init_called: "prefix (calls w @ [InitSharedPluginModules entryModule]) (calls w1)"
    using entry_body_calls [of wg entryModule init res pluginID pd'] by (simp add: w1 calls_g)
  have store_called: "calls w1 = calls w @
        [InitSharedPluginModules entryModule,
         ResolveEncodedCodeRefs (extensions (manifest pd)) entryModule pluginID,
         AddDynamicPlugin pluginID (manifest pd) es]"
    if "init entryModule = None"
      and "res (extensions (manifest pd)) entryModule pluginID = Inr (es, n)" for es n
    using that by (simp add: w1 entry_body_def Let_def calls_g pd'_def)
  have fired: "entryCallbackFired pd'"
    by (simp add: pd'_def)
  note again_g = getPluginEntryCallback_fired [OF rec_g fired, of init2 res2 entryModule2]
  note again_1 = getPluginEntryCallback_fired [OF rec_1 fired, of init2 res2 entryModule2]
  have body: "entry_body init res pluginID entryModule pd' wg = (thrown, w1)"
    by (simp add: r_def [symmetric] r)
  from rec_g calls_g again_g init_called store_called rec_1 again_1
  show ?thesis
    unfolding guard run by (auto simp add: pd'_def [symmetric] body)
qed

theorem entry_callback_fires_once_witness:
  "map_of (pluginMap example_pending) ''foo@1.0.0''
     = Some \<lparr>manifest = example_manifest, entryCallbackFired = False\<rparr>
   \<and> \<not> entryCallbackFired \<lparr>manifest = example_manifest, entryCallbackFired = False\<rparr>
   \<and> calls (snd (getPluginEntryCallback init_ok resolve_all ''foo@1.0.0''
                   (RemoteEntryModule ''foo'') example_pending))
       = [InitSharedPluginModules (RemoteEntryModule ''foo''),
          ResolveEncodedCodeRefs [Extension ''foo.nav''] (RemoteEntryModule ''foo'') ''foo@1.0.0'',
          AddDynamicPlugin ''foo@1.0.0'' example_manifest [Extension ''foo.nav'']]
   \<and> calls (snd (getPluginEntryCallback init_ok resolve_all ''foo@1.0.0''
                   (RemoteEntryModule ''foo'')
                   (snd (getPluginEntryCallback init_ok resolve_all ''foo@1.0.0''
                           (RemoteEntryModule ''foo'') example_pending))))
       = [InitSharedPluginModules (RemoteEntryModule ''foo''),
          ResolveEncodedCodeRefs [Extension ''foo.nav''] (RemoteEntryModule ''foo'') ''foo@1.0.0'',
          AddDynamicPlugin ''foo@1.0.0'' example_manifest [Extension ''foo.nav'']]"
  using entry_callback_fires_once
          [of example_pending "''foo@1.0.0''"
              "\<lparr>manifest = example_manifest, entryCallbackFired = False\<rparr>"
              init_ok resolve_all "RemoteEntryModule ''foo''"
              init_ok resolve_all "RemoteEntryModule ''foo''"]
  by (simp add: example_pending_eq getPluginEntryCallback_def entry_guard_def entry_body_def
        init_ok_def resolve_all_def example_manifest_def Let_def)

subsection \<open>The load handler\<close>

text \<open>
  Claim C4. When the \<^verbatim>\<open>load\<close> event of an injected script fires while the record of its
  plugin is in the registry and the promise is still pending, the handler throws nothing and
  changes only that promise: it is resolved with the plugin identifier if and only if
  \<open>entryCallbackFired\<close> of the record is true at that moment, and otherwise it is rejected
  with \<^verbatim>\<open>Entry script for plugin <id> loaded without callback\<close>.
\<close>

theorem script_onload_resolves_iff_fired:
  assumes "map_of (pluginMap w) (closure_pluginID s) = Some pd"
    and "closure_promise s < length (promises w)"
    and "promises w ! closure_promise s = Pending"
  shows "let (thrown, w') = script_onload s w
         in thrown = None
          \<and> w' = w\<lparr>promises := (promises w)[closure_promise s :=
                                   promise_state w' (closure_promise s)]\<rparr>
          \<and> (promise_state w' (closure_promise s) = Resolved (closure_pluginID s)
               \<longleftrightarrow> entryCallbackFired pd)
          \<and> (\<not> entryCallbackFired pd \<longrightarrow>
               promise_state w' (closure_promise s) =
                 Rejected (Error (''Entry script for plugin '' @ closure_pluginID s
                                  @ '' loaded without callback'')))"
  using assms
  by (simp add: script_onload_present settle_pending promise_state_def)

theorem script_onload_resolves_iff_fired_witness:
  "map_of (pluginMap example_pending) (closure_pluginID example_script)
     = Some \<lparr>manifest = example_manifest, entryCallbackFired = False\<rparr>
   \<and> closure_promise example_script < length (promises example_pending)
   \<and> promises example_pending ! closure_promise example_script = Pending
   \<and> script_onload example_script example_pending =
       (None, example_pending\<lparr>promises :=
          [Rejected (Error ''Entry script for plugin foo@1.0.0 loaded without callback'')]\<rparr>)"
  using script_onload_resolves_iff_fired
          [of example_pending example_script
              "\<lparr>manifest = example_manifest, entryCallbackFired = False\<rparr>"]
  by (simp add: example_pending_eq example_script_eq script_onload_def reject_def settle_def)

text \<open>
  Claim C5. The record of the script's plugin is pending and the shared-module initializer
  throws \<open>e\<close>. Then the entry callback catches it and returns normally, the initializer is
  the only collaborator called (the store's \<^verbatim>\<open>addDynamicPlugin\<close> is not), the failure is
  logged, and the flag of the record is set. When the script's \<^verbatim>\<open>load\<close> event fires
  afterwards, the promise is resolved with the plugin identifier, and no later invocation of
  the entry callback for that identifier calls the store either.
\<close>

theorem init_failure_still_resolves:
  assumes "map_of (pluginMap w) (closure_pluginID s) = Some pd"
    and "\<not> entryCallbackFired pd"
    and "init entryModule = Some e"
    and "closure_promise s < length (promises w)"
    and "promises w ! closure_promise s = Pending"
  shows "let (thrown, w1) = getPluginEntryCallback init res (closure_pluginID s) entryModule w;
             (thrown', w2) = script_onload s w1
         in thrown = None
          \<and> calls w1 = calls w @ [InitSharedPluginModules entryModule]
          \<and> console w1 = console w @
               [ConsoleError (''Failed to initialize shared modules for plugin ''
                              @ closure_pluginID s) (Some e)]
          \<and> map_of (pluginMap w1) (closure_pluginID s) = Some (pd\<lparr>entryCallbackFired := True\<rparr>)
          \<and> thrown' = None
          \<and> promise_state w2 (closure_promise s) = Resolved (closure_pluginID s)
          \<and> calls w2 = calls w1
          \<and> calls (snd (getPluginEntryCallback init2 res2 (closure_pluginID s) entryModule2 w2))
              = calls w1"
proof -
  let ?id = "closure_pluginID s"
  let ?pd = "pd\<lparr>entryCallbackFired := True\<rparr>"
  define w1 where "w1 = snd (getPluginEntryCallback init res ?id entryModule w)"
  define w2 where "w2 = snd (script_onload s w1)"
  have run: "getPluginEntryCallback init res ?id entryModule w = (None, w1)"
    and calls1: "calls w1 = calls w @ [InitSharedPluginModules entryModule]"
    and console1: "console w1 = console w @
          [ConsoleError (''Failed to initialize shared modules for plugin '' @ ?id) (Some e)]"
    and rec1: "map_of (pluginMap w1) ?id = Some ?pd"
    and promises1: "promises w1 = promises w"
    using assms(1-3) unfolding w1_def
    by (simp_all add: getPluginEntryCallback_def entry_guard_first entry_body_def Let_def
          update_conv')
  have load: "script_onload s w1 = (None, w2)"
    and calls2: "calls w2 = calls w1"
    and rec2: "map_of (pluginMap w2) ?id = Some ?pd"
    and promise2: "promise_state w2 (closure_promise s) = Resolved ?id"
    using assms(4,5) rec1 promises1 unfolding w2_def
    by (simp_all add: script_onload_present [OF rec1] settle_pending promise_state_def)
  have later: "calls (snd (getPluginEntryCallback init2 res2 ?id entryModule2 w2)) = calls w1"
    using getPluginEntryCallback_fired [OF rec2, of init2 res2 entryModule2] calls2 by simp
  show ?thesis
    using calls1 console1 rec1 calls2 promise2 later
    by (simp add: run load)
qed

theorem init_failure_still_resolves_witness:
  "map_of (pluginMap example_pending) (closure_pluginID example_script)
     = Some \<lparr>manifest = example_manifest, entryCallbackFired = False\<rparr>
   \<and> \<not> entryCallbackFired \<lparr>manifest = example_manifest, entryCallbackFired = False\<rparr>
   \<and> init_throws (RemoteEntryModule ''foo'') = Some (Error ''init failed'')
   \<and> closure_promise example_script < length (promises example_pending)
   \<and> promises example_pending ! closure_promise example_script = Pending
   \<and> calls (snd (getPluginEntryCallback init_throws resolve_all ''foo@1.0.0''
                   (RemoteEntryModule ''foo'') example_pending))
       = [InitSharedPluginModules (RemoteEntryModule ''foo'')]
   \<and> promises (snd (script_onload example_script
                 (snd (getPluginEntryCallback init_throws resolve_all ''foo@1.0.0''
                         (RemoteEntryModule ''foo'') example_pending))))
       = [Resolved ''foo@1.0.0'']"
  using init_failure_still_resolves
          [of example_pending example_script
              "\<lparr>manifest = example_manifest, entryCallbackFired = False\<rparr>"
              init_throws "RemoteEntryModule ''foo''" "Error ''init failed''"
              resolve_all init_ok resolve_all "RemoteEntryModule ''foo''"]
  by (simp add: example_pending_eq example_script_eq getPluginEntryCallback_def entry_guard_def
        entry_body_def init_throws_def script_onload_def resolve_def settle_def Let_def)

text \<open>
  Claim C10. A call of \<open>loadDynamicPlugin\<close> that passes the duplicate check appends a
  script whose \<^verbatim>\<open>load\<close> handler is bound to the identifier and the promise of that call.
  The handler reads \<open>entryCallbackFired\<close> of whatever \<^verbatim>\<open>pluginMap.get\<close> returns: in any
  world it completes without an exception exactly when the registry has a record for the
  identifier. That holds in the world the call leaves; after a reset the registry is empty,
  the handler throws the \<^verbatim>\<open>TypeError\<close> of reading a property of \<^verbatim>\<open>undefined\<close>, and the
  promise stays pending.
\<close>

theorem script_onload_needs_record:
  assumes "find (\<lambda>pd. name (manifest pd) = name m) (map snd (pluginMap w)) = None"
  shows "let (p, w1) = loadDynamicPlugin d token baseURL m w;
             s = last (document_head w1);
             w2 = resetStateAndEnvForTestPurposes w1
         in closure_pluginID s = getPluginID d m \<and> closure_promise s = p
          \<and> src s = resolveURL d baseURL (remoteEntryFile d)
                       (\<lambda>url. url\<lparr>search := ''?cacheBuster='' @ token\<rparr>)
          \<and> (\<forall>w'. fst (script_onload s w') = None \<longleftrightarrow> map_of (pluginMap w') (closure_pluginID s) \<noteq> None)
          \<and> fst (script_onload s w1) = None
          \<and> pluginMap w2 = []
          \<and> script_onload s w2 = (Some (TypeError ''entryCallbackFired''), w2)
          \<and> promise_state w2 p = Pending"
proof -
  have iff: "fst (script_onload s w') = None \<longleftrightarrow> map_of (pluginMap w') (closure_pluginID s) \<noteq> None"
    for s w'
    by (cases "map_of (pluginMap w') (closure_pluginID s)")
       (simp_all add: script_onload_absent script_onload_present)
  show ?thesis
    by (simp add: loadDynamicPlugin_fresh [OF assms] Let_def iff update_conv'
          resetStateAndEnvForTestPurposes_def script_onload_absent promise_state_def)
qed

theorem script_onload_needs_record_witness:
  "find (\<lambda>pd. name (manifest pd) = name example_manifest) (map snd (pluginMap initial_world))
     = None
   \<and> fst (script_onload example_script example_pending) = None
   \<and> script_onload example_script (resetStateAndEnvForTestPurposes example_pending) =
       (Some (TypeError ''entryCallbackFired''),
        example_pending\<lparr>pluginMap := [], document_head := []\<rparr>)"
  using script_onload_needs_record
          [of example_manifest initial_world spec_deps "''k3x9qa''" "''https://cdn.example/foo''"]
  by (simp add: example_pending_eq example_script_eq script_onload_def reject_def settle_def
        resetStateAndEnvForTestPurposes_def scriptIDPrefix_def initial_world_def)

subsection \<open>Activation\<close>

text \<open>
  Claim C2. \<open>loadAndEnablePlugin\<close> stops at the first stage that fails, after one call of
  \<^verbatim>\<open>onError\<close> with a message and the cause. With \<open>url\<close> the manifest URL:
  when the manifest fetch rejects with \<open>e\<close>, the function returns, and the world differs
  from the one it started in by two calls only, the fetch and
  \<^verbatim>\<open>onError("Failed to get a valid plugin manifest from <url>", e)\<close>: the dependency
  resolver is not called, nothing is injected, the store receives no call. When dependency
  resolution rejects with \<open>e\<close>, the calls are the fetch, the store's
  \<^verbatim>\<open>getAllowedDynamicPluginNames\<close>, the resolver and one \<^verbatim>\<open>onError\<close>, and nothing else
  changes. When the promise of \<open>loadDynamicPlugin\<close> is rejected with \<open>e\<close>, the function
  returns after \<^verbatim>\<open>onError("Failed to load entry script of plugin <name>", e)\<close>, and the
  calls the activation has made itself are the three of the earlier stages and that one: the
  store's \<^verbatim>\<open>setDynamicPluginEnabled\<close> is not among them.
\<close>

theorem loadAndEnablePlugin_failure_aborts:
  "(let url = basePath d @ ''api/plugins/'' @ pluginName @ ''/''
    in loadAndEnablePlugin d init res pluginName (Inl e) resolved token evs w =
         Returned (w\<lparr>calls := calls w @
           [FetchPluginManifest url,
            OnError (''Failed to get a valid plugin manifest from '' @ url) e]\<rparr>)
     \<and> loadAndEnablePlugin d init res pluginName (Inr m) (Some e) token evs w =
         Returned (w\<lparr>calls := calls w @
           [FetchPluginManifest url, GetAllowedDynamicPluginNames, ResolvePluginDependencies m,
            OnError (''Failed to resolve dependencies of plugin '' @ pluginName) e]\<rparr>)
     \<and> (let (p, w3) = loadDynamicPlugin d token url m
                        (w\<lparr>calls := calls w @
                           [FetchPluginManifest url, GetAllowedDynamicPluginNames,
                            ResolvePluginDependencies m]\<rparr>)
        in \<forall>w4. await_promise d init res p evs w3 = (Rejected e, w4) \<longrightarrow>
             loadAndEnablePlugin d init res pluginName (Inr m) None token evs w =
               Returned (w4\<lparr>calls := calls w4 @
                 [OnError (''Failed to load entry script of plugin '' @ pluginName) e]\<rparr>)
           \<and> filter activation_call (calls w4 @
                 [OnError (''Failed to load entry script of plugin '' @ pluginName) e]) =
               filter activation_call (calls w) @
                 [FetchPluginManifest url, GetAllowedDynamicPluginNames,
                  ResolvePluginDependencies m,
                  OnError (''Failed to load entry script of plugin '' @ pluginName) e]))"
proof -
  let ?url = "basePath d @ ''api/plugins/'' @ pluginName @ ''/''"
  let ?w2 = "w\<lparr>calls := calls w @
      [FetchPluginManifest ?url, GetAllowedDynamicPluginNames, ResolvePluginDependencies m]\<rparr>"
  let ?L = "loadDynamicPlugin d token ?url m ?w2"
  let ?report = "OnError (''Failed to load entry script of plugin '' @ pluginName) e"
  have fetch: "loadAndEnablePlugin d init res pluginName (Inl e) resolved token evs w =
      Returned (w\<lparr>calls := calls w @
        [FetchPluginManifest ?url,
         OnError (''Failed to get a valid plugin manifest from '' @ ?url) e]\<rparr>)"
    by (simp add: loadAndEnablePlugin_def onError_def Let_def)
  have dependencies: "loadAndEnablePlugin d init res pluginName (Inr m) (Some e) token evs w =
      Returned (w\<lparr>calls := calls w @
        [FetchPluginManifest ?url, GetAllowedDynamicPluginNames, ResolvePluginDependencies m,
         OnError (''Failed to resolve dependencies of plugin '' @ pluginName) e]\<rparr>)"
    by (simp add: loadAndEnablePlugin_def onError_def Let_def)
  have script: "loadAndEnablePlugin d init res pluginName (Inr m) None token evs w =
        Returned (w4\<lparr>calls := calls w4 @ [?report]\<rparr>)
      \<and> filter activation_call (calls w4 @ [?report]) =
        filter activation_call (calls w) @
          [FetchPluginManifest ?url, GetAllowedDynamicPluginNames, ResolvePluginDependencies m,
           ?report]"
    if rejected: "await_promise d init res (fst ?L) evs (snd ?L) = (Rejected e, w4)" for w4
  proof -
    have "filter activation_call (calls w4) = filter activation_call (calls (snd ?L))"
      using await_promise_activation_calls [of d init res "fst ?L" evs "snd ?L"] rejected
      by simp
    also have "\<dots> = filter activation_call (calls ?w2)"
      by (simp only: loadDynamicPlugin_calls)
    finally have own: "filter activation_call (calls w4) =
        filter activation_call (calls w) @
          [FetchPluginManifest ?url, GetAllowedDynamicPluginNames, ResolvePluginDependencies m]"
      by simp
    have "loadAndEnablePlugin d init res pluginName (Inr m) None token evs w =
        Returned (w4\<lparr>calls := calls w4 @ [?report]\<rparr>)"
      using rejected by (simp add: loadAndEnablePlugin_def onError_def Let_def split_beta)
    with own show ?thesis by simp
  qed
  show ?thesis
    unfolding Let_def split_beta using fetch dependencies script by blast
qed

theorem loadAndEnablePlugin_failure_aborts_witness:
  "await_promise spec_deps init_ok resolve_all
     (fst (loadDynamicPlugin spec_deps ''p0w7zz'' ''/api/plugins/foo/'' example_manifest
             (example_pending\<lparr>calls :=
                [FetchPluginManifest ''/api/plugins/foo/'', GetAllowedDynamicPluginNames,
                 ResolvePluginDependencies example_manifest]\<rparr>)))
     []
     (snd (loadDynamicPlugin spec_deps ''p0w7zz'' ''/api/plugins/foo/'' example_manifest
             (example_pending\<lparr>calls :=
                [FetchPluginManifest ''/api/plugins/foo/'', GetAllowedDynamicPluginNames,
                 ResolvePluginDependencies example_manifest]\<rparr>)))
     = (Rejected (Error ''Attempt to reload plugin foo@1.0.0 with foo@1.0.0''),
        example_pending\<lparr>calls :=
            [FetchPluginManifest ''/api/plugins/foo/'', GetAllowedDynamicPluginNames,
             ResolvePluginDependencies example_manifest],
          promises :=
            [Pending, Rejected (Error ''Attempt to reload plugin foo@1.0.0 with foo@1.0.0'')]\<rparr>)
   \<and> loadAndEnablePlugin spec_deps init_ok resolve_all ''foo'' (Inr example_manifest) None
        ''p0w7zz'' [] example_pending =
       Returned (example_pending\<lparr>calls :=
            [FetchPluginManifest ''/api/plugins/foo/'', GetAllowedDynamicPluginNames,
             ResolvePluginDependencies example_manifest,
             OnError ''Failed to load entry script of plugin foo''
               (Error ''Attempt to reload plugin foo@1.0.0 with foo@1.0.0'')],
          promises :=
            [Pending, Rejected (Error ''Attempt to reload plugin foo@1.0.0 with foo@1.0.0'')]\<rparr>)
   \<and> loadAndEnablePlugin spec_deps init_ok resolve_all ''foo'' (Inl (Error ''Network error''))
        None ''p0w7zz'' [] initial_world =
       Returned (initial_world\<lparr>calls :=
            [FetchPluginManifest ''/api/plugins/foo/'',
             OnError ''Failed to get a valid plugin manifest from /api/plugins/foo/''
               (Error ''Network error'')]\<rparr>)"
  using loadAndEnablePlugin_failure_aborts
          [of spec_deps "''foo''" init_ok resolve_all
              "Error ''Attempt to reload plugin foo@1.0.0 with foo@1.0.0''" None "''p0w7zz''" "[]"
              example_pending example_manifest]
  by (simp add: example_pending_eq loadAndEnablePlugin_def loadDynamicPlugin_def new_Promise_def
        reject_def settle_def promise_state_def onError_def spec_deps_def getPluginID_spec_def
        example_manifest_def initial_world_def Let_def)

text \<open>
  Claim C9. The manifest URL is the host's base path followed by the \<^verbatim>\<open>api/plugins\<close>
  path segment and the plugin name with a trailing slash; the base path carries the slash
  that precedes \<^verbatim>\<open>api/plugins\<close> (for the base path \<^verbatim>\<open>/\<close> and the plugin
  \<^verbatim>\<open>foo\<close> the URL is \<^verbatim>\<open>/api/plugins/foo/\<close>). With \<open>url\<close> that URL: whatever
  the outcome of the stages, the first call that \<open>loadAndEnablePlugin\<close> makes is the
  manifest fetch from \<open>url\<close>; and when the manifest is fetched, its dependencies resolve
  and no record has its name, the function is suspended in the world that
  \<open>loadDynamicPlugin\<close> leaves when called with \<open>url\<close> as its base URL, in which the
  document has one more script, whose source is the entry file resolved against \<open>url\<close>.
\<close>

theorem manifest_url_is_base_url:
  "(let url = basePath d @ ''api/plugins/'' @ pluginName @ ''/''
    in prefix (calls w @ [FetchPluginManifest url])
         (calls (world_of (loadAndEnablePlugin d init res pluginName fetched resolved token
                             evs w)))
     \<and> (find (\<lambda>pd. name (manifest pd) = name m) (map snd (pluginMap w)) = None \<longrightarrow>
          loadAndEnablePlugin d init res pluginName (Inr m) None token [] w =
            Suspended (snd (loadDynamicPlugin d token url m
                             (w\<lparr>calls := calls w @
                                [FetchPluginManifest url, GetAllowedDynamicPluginNames,
                                 ResolvePluginDependencies m]\<rparr>)))
        \<and> document_head (world_of (loadAndEnablePlugin d init res pluginName (Inr m) None
                                      token [] w)) =
            document_head w @
              [\<lparr>id_attr = getScriptElementID m,
                src = resolveURL d url (remoteEntryFile d)
                        (\<lambda>u. u\<lparr>search := ''?cacheBuster='' @ token\<rparr>),
                async = True, closure_pluginID = getPluginID d m,
                closure_promise = length (promises w)\<rparr>]))"
proof -
  let ?url = "basePath d @ ''api/plugins/'' @ pluginName @ ''/''"
  let ?w2 = "\<lambda>m. w\<lparr>calls := calls w @
      [FetchPluginManifest ?url, GetAllowedDynamicPluginNames, ResolvePluginDependencies m]\<rparr>"
  let ?run = "loadAndEnablePlugin d init res pluginName fetched resolved token evs w"
  have first: "prefix (calls w @ [FetchPluginManifest ?url]) (calls (world_of ?run))"
  proof (cases fetched)
    case (Inl e)
    then show ?thesis
      by (simp add: loadAndEnablePlugin_def onError_def Let_def prefix_def)
  next
    case (Inr m')
    show ?thesis
    proof (cases resolved)
      case (Some e)
      with Inr show ?thesis
        by (simp add: loadAndEnablePlugin_def onError_def Let_def prefix_def)
    next
      case None
      let ?L = "loadDynamicPlugin d token ?url m' (?w2 m')"
      let ?A = "await_promise d init res (fst ?L) evs (snd ?L)"
      have "prefix (calls (?w2 m')) (calls (snd ?L))"
        by (simp only: loadDynamicPlugin_calls prefix_order.order_refl)
      also have "prefix \<dots> (calls (snd ?A))"
        by (rule await_promise_calls_prefix)
      finally have "prefix (calls w @ [FetchPluginManifest ?url]) (calls (snd ?A))"
        by (auto simp: prefix_def)
      moreover have "prefix (calls (snd ?A)) (calls (world_of ?run))"
        using Inr None
        by (simp add: loadAndEnablePlugin_def onError_def Let_def split_beta
              split: promise.splits)
      ultimately show ?thesis
        by (rule prefix_order.order_trans)
    qed
  qed
  have second:
    "loadAndEnablePlugin d init res pluginName (Inr m) None token [] w =
       Suspended (snd (loadDynamicPlugin d token ?url m (?w2 m)))
     \<and> document_head (world_of (loadAndEnablePlugin d init res pluginName (Inr m) None
                                   token [] w)) =
         document_head w @
           [\<lparr>id_attr = getScriptElementID m,
             src = resolveURL d ?url (remoteEntryFile d)
                     (\<lambda>u. u\<lparr>search := ''?cacheBuster='' @ token\<rparr>),
             async = True, closure_pluginID = getPluginID d m,
             closure_promise = length (promises w)\<rparr>]"
    if fresh: "find (\<lambda>pd. name (manifest pd) = name m) (map snd (pluginMap w)) = None"
  proof -
    define w2 where "w2 = ?w2 m"
    have fresh2: "find (\<lambda>pd. name (manifest pd) = name m) (map snd (pluginMap w2)) = None"
      using fresh by (simp add: w2_def)
    note L = loadDynamicPlugin_fresh [OF fresh2, of d token ?url]
    have run: "loadAndEnablePlugin d init res pluginName (Inr m) None token [] w =
        (case loadDynamicPlugin d token ?url m w2 of
           (p, w3) \<Rightarrow>
             (case await_promise d init res p [] w3 of
                (Pending, w4) \<Rightarrow> Suspended w4
              | (Rejected e, w4) \<Rightarrow>
                  Returned (onError (''Failed to load entry script of plugin '' @ pluginName)
                              e w4)
              | (Resolved v, w4) \<Rightarrow>
                  Returned (w4\<lparr>calls := calls w4 @
                              [SetDynamicPluginEnabled (getPluginID d m) True]\<rparr>)))"
      unfolding loadAndEnablePlugin_def Let_def w2_def by simp
    have fold: "snd (loadDynamicPlugin d token ?url m (?w2 m)) =
        snd (loadDynamicPlugin d token ?url m w2)"
      by (simp only: w2_def)
    show ?thesis
      unfolding fold run L by (simp add: promise_state_def w2_def)
  qed
  show ?thesis
    unfolding Let_def using first second by blast
qed

theorem manifest_url_is_base_url_witness:
  "find (\<lambda>pd. name (manifest pd) = name example_manifest) (map snd (pluginMap initial_world))
     = None
   \<and> calls (world_of (loadAndEnablePlugin spec_deps init_ok resolve_all ''foo''
                (Inr example_manifest) None ''k3x9qa'' [] initial_world))
       = [FetchPluginManifest ''/api/plugins/foo/'', GetAllowedDynamicPluginNames,
          ResolvePluginDependencies example_manifest]
   \<and> map src (document_head (world_of (loadAndEnablePlugin spec_deps init_ok resolve_all ''foo''
                (Inr example_manifest) None ''k3x9qa'' [] initial_world)))
       = [resolveURL_spec ''/api/plugins/foo/'' ''plugin-entry.js''
            (\<lambda>u. u\<lparr>search := ''?cacheBuster=k3x9qa''\<rparr>)]"
  using manifest_url_is_base_url
          [of spec_deps "''foo''" initial_world init_ok resolve_all "Inr example_manifest" None
              "''k3x9qa''" "[]" example_manifest]
  by (simp add: loadAndEnablePlugin_def loadDynamicPlugin_def new_Promise_def promise_state_def
        spec_deps_def getPluginID_spec_def example_manifest_def initial_world_def Let_def)

subsection \<open>The cache-busting token\<close>

text \<open>
  Claim C7 as stated, that any two calls construct distinct URLs, fails: the token is whatever
  \<^verbatim>\<open>getRandomChars()\<close> returns, and nothing in the loader keeps two calls from drawing
  the same one. In the running example, a call for another plugin with the same base URL
  that draws \<^verbatim>\<open>k3x9qa\<close> again appends a second script with the same source; so does a
  call for the same manifest after a reset. A call that is rejected as a duplicate appends
  no script and constructs no URL at all.
\<close>

theorem cache_buster_repeats:
  "src (last (document_head example_pending))
     = ''https://cdn.example/foo/plugin-entry.js?cacheBuster=k3x9qa''
   \<and> map src (document_head (snd (loadDynamicPlugin spec_deps ''k3x9qa''
                  ''https://cdn.example/foo'' (example_manifest\<lparr>name := ''bar''\<rparr>)
                  example_pending)))
       = [''https://cdn.example/foo/plugin-entry.js?cacheBuster=k3x9qa'',
          ''https://cdn.example/foo/plugin-entry.js?cacheBuster=k3x9qa'']
   \<and> map src (document_head (snd (loadDynamicPlugin spec_deps ''k3x9qa''
                  ''https://cdn.example/foo'' example_manifest
                  (resetStateAndEnvForTestPurposes example_pending))))
       = [''https://cdn.example/foo/plugin-entry.js?cacheBuster=k3x9qa'']
   \<and> document_head (snd (loadDynamicPlugin spec_deps ''p0w7zz''
                  ''https://cdn.example/foo'' example_manifest example_pending))
       = document_head example_pending"
  by (simp add: example_pending_eq loadDynamicPlugin_def new_Promise_def reject_def settle_def
        resetStateAndEnvForTestPurposes_def scriptIDPrefix_def getScriptElementID_def
        spec_deps_def getPluginID_spec_def resolveURL_spec_def example_manifest_def Let_def)

text \<open>
  Claim C7, amended. With \<^verbatim>\<open>resolveURL\<close> as the spec describes it, a call of
  \<open>loadDynamicPlugin\<close> that passes the duplicate check gives the script the source
  \<^verbatim>\<open><baseURL>/<entry file>?cacheBuster=<token>\<close>, where the token is the one drawn on that call;
  and two such calls with the same base URL construct the same URL if and only if they drew
  the same token.
\<close>

theorem cache_buster_token:
  assumes "resolveURL d = resolveURL_spec"
    and "find (\<lambda>pd. name (manifest pd) = name m) (map snd (pluginMap w)) = None"
    and "find (\<lambda>pd. name (manifest pd) = name m') (map snd (pluginMap w')) = None"
  shows "src (last (document_head (snd (loadDynamicPlugin d token baseURL m w))))
           = baseURL @ ''/'' @ remoteEntryFile d @ ''?cacheBuster='' @ token
       \<and> (src (last (document_head (snd (loadDynamicPlugin d token baseURL m w))))
            = src (last (document_head (snd (loadDynamicPlugin d token' baseURL m' w'))))
          \<longleftrightarrow> token = token')"
  using assms(1)
  by (simp add: loadDynamicPlugin_fresh [OF assms(2)] loadDynamicPlugin_fresh [OF assms(3)]
        resolveURL_spec_def)

theorem cache_buster_token_witness:
  "resolveURL spec_deps = resolveURL_spec
   \<and> find (\<lambda>pd. name (manifest pd) = name example_manifest) (map snd (pluginMap initial_world))
       = None
   \<and> find (\<lambda>pd. name (manifest pd) = name (example_manifest\<lparr>name := ''bar''\<rparr>))
        (map snd (pluginMap example_pending)) = None
   \<and> src (last (document_head (snd (loadDynamicPlugin spec_deps ''k3x9qa''
              ''https://cdn.example/foo'' example_manifest initial_world))))
       = ''https://cdn.example/foo/plugin-entry.js?cacheBuster=k3x9qa''
   \<and> src (last (document_head (snd (loadDynamicPlugin spec_deps ''p0w7zz''
              ''https://cdn.example/foo'' (example_manifest\<lparr>name := ''bar''\<rparr>)
              example_pending))))
       \<noteq> src (last (document_head (snd (loadDynamicPlugin spec_deps ''k3x9qa''
              ''https://cdn.example/foo'' example_manifest initial_world))))"
  using cache_buster_token
          [of spec_deps example_manifest initial_world "example_manifest\<lparr>name := ''bar''\<rparr>"
              example_pending "''k3x9qa''" "''https://cdn.example/foo''" "''p0w7zz''"]
  by (simp add: example_pending_eq loadDynamicPlugin_def new_Promise_def
        spec_deps_def getPluginID_spec_def resolveURL_spec_def example_manifest_def
        initial_world_def Let_def)

subsection \<open>Persistence of the record\<close>

text \<open>
  Claim C8. A record is in the registry under key \<open>k\<close>. Let any sequence of events follow
  that has no reset in it (and no call of \<open>loadDynamicPlugin\<close> for a plugin of another
  name with the same identifier, which is not a failure path): script errors, loads with or
  without the callback, entry callbacks whose initializer or resolver fails, rejected
  retries. Then the record is still there with its manifest, and a call of
  \<open>loadDynamicPlugin\<close> for any manifest of the same name is rejected as an attempt to
  reload, leaving all but the rejected promise as it was. A reset empties the registry, and
  the same call after the reset passes the duplicate check: it inserts a fresh record and
  its promise is pending.
\<close>

theorem record_persists_until_reset:
  assumes "map_of (pluginMap w) k = Some pd"
    and "list_all (leaves_record d k (name (manifest pd))) evs"
    and "name m = name (manifest pd)"
  shows "let w' = run_events d init res evs w;
             wr = resetStateAndEnvForTestPurposes w'
         in (\<exists>pd'. map_of (pluginMap w') k = Some pd' \<and> manifest pd' = manifest pd)
          \<and> (\<exists>existing.
                loadDynamicPlugin d token baseURL m w' =
                  (length (promises w'),
                   w'\<lparr>promises := promises w' @
                       [Rejected (Error (''Attempt to reload plugin '' @ existing
                                         @ '' with '' @ getPluginID d m))]\<rparr>))
          \<and> pluginMap wr = []
          \<and> pluginMap (snd (loadDynamicPlugin d token baseURL m wr)) =
              [(getPluginID d m, \<lparr>manifest = m, entryCallbackFired = False\<rparr>)]
          \<and> promise_state (snd (loadDynamicPlugin d token baseURL m wr))
                (fst (loadDynamicPlugin d token baseURL m wr)) = Pending"
proof -
  define w' where "w' = run_events d init res evs w"
  define wr where "wr = resetStateAndEnvForTestPurposes w'"
  from run_events_record [OF assms(1), of evs d init res] assms(2)
  obtain pd' where kept: "map_of (pluginMap w') k = Some pd'"
    and same: "manifest pd' = manifest pd"
    by (auto simp: w'_def list_all_iff)
  from find_present [OF kept, of "\<lambda>pd. name (manifest pd) = name m"] same assms(3)
  obtain existing where
    "find (\<lambda>pd. name (manifest pd) = name m) (map snd (pluginMap w')) = Some existing"
    by auto
  from loadDynamicPlugin_existing [OF this, of d token baseURL]
  have retry: "\<exists>existing.
      loadDynamicPlugin d token baseURL m w' =
        (length (promises w'),
         w'\<lparr>promises := promises w' @
             [Rejected (Error (''Attempt to reload plugin '' @ existing
                               @ '' with '' @ getPluginID d m))]\<rparr>)"
    by blast
  have cleared: "pluginMap wr = []"
    by (simp add: wr_def resetStateAndEnvForTestPurposes_def)
  then have "find (\<lambda>pd. name (manifest pd) = name m) (map snd (pluginMap wr)) = None"
    by simp
  from loadDynamicPlugin_fresh [OF this, of d token baseURL] cleared
  have again: "pluginMap (snd (loadDynamicPlugin d token baseURL m wr)) =
        [(getPluginID d m, \<lparr>manifest = m, entryCallbackFired = False\<rparr>)]"
    and pending: "promise_state (snd (loadDynamicPlugin d token baseURL m wr))
        (fst (loadDynamicPlugin d token baseURL m wr)) = Pending"
    by (simp_all add: promise_state_def)
  from kept same retry cleared again pending show ?thesis
    unfolding Let_def w'_def [symmetric] wr_def [symmetric] by blast
qed

theorem record_persists_until_reset_witness:
  "map_of (pluginMap (registerPluginEntryCallback example_pending)) ''foo@1.0.0''
     = Some \<lparr>manifest = example_manifest, entryCallbackFired = False\<rparr>
   \<and> list_all (leaves_record spec_deps ''foo@1.0.0'' (name example_manifest))
        [ScriptError example_script (Event ''error''),
         PluginEntry ''foo@1.0.0'' (RemoteEntryModule ''foo''),
         ScriptLoad example_script,
         LoadDynamicPlugin ''p0w7zz'' ''https://cdn.example/foo''
           (example_manifest\<lparr>version := ''2.0.0''\<rparr>)]
   \<and> name (example_manifest\<lparr>version := ''1.0.1''\<rparr>) = name example_manifest
   \<and> pluginMap (run_events spec_deps init_throws resolve_all
        [ScriptError example_script (Event ''error''),
         PluginEntry ''foo@1.0.0'' (RemoteEntryModule ''foo''),
         ScriptLoad example_script,
         LoadDynamicPlugin ''p0w7zz'' ''https://cdn.example/foo''
           (example_manifest\<lparr>version := ''2.0.0''\<rparr>)]
        (registerPluginEntryCallback example_pending))
       = [(''foo@1.0.0'', \<lparr>manifest = example_manifest, entryCallbackFired = True\<rparr>)]
   \<and> promises (snd (loadDynamicPlugin spec_deps ''zq81mc'' ''https://cdn.example/foo''
        (example_manifest\<lparr>version := ''1.0.1''\<rparr>)
        (run_events spec_deps init_throws resolve_all
          [ScriptError example_script (Event ''error''),
           PluginEntry ''foo@1.0.0'' (RemoteEntryModule ''foo''),
           ScriptLoad example_script,
           LoadDynamicPlugin ''p0w7zz'' ''https://cdn.example/foo''
             (example_manifest\<lparr>version := ''2.0.0''\<rparr>)]
          (registerPluginEntryCallback example_pending))))
       = [Rejected (ErrorWithCause
            ''Error while loading plugin entry script from https://cdn.example/foo/plugin-entry.js?cacheBuster=k3x9qa''
            (Event ''error'')),
          Rejected (Error ''Attempt to reload plugin foo@1.0.0 with foo@2.0.0''),
          Rejected (Error ''Attempt to reload plugin foo@1.0.0 with foo@1.0.1'')]"
  using record_persists_until_reset
          [of "registerPluginEntryCallback example_pending" "''foo@1.0.0''"
              "\<lparr>manifest = example_manifest, entryCallbackFired = False\<rparr>" spec_deps
              "[ScriptError example_script (Event ''error''),
                PluginEntry ''foo@1.0.0'' (RemoteEntryModule ''foo''),
                ScriptLoad example_script,
                LoadDynamicPlugin ''p0w7zz'' ''https://cdn.example/foo''
                  (example_manifest\<lparr>version := ''2.0.0''\<rparr>)]"
              "example_manifest\<lparr>version := ''1.0.1''\<rparr>" init_throws resolve_all
              "''zq81mc''" "''https://cdn.example/foo''"]
  by (simp add: example_pending_eq example_script_eq registerPluginEntryCallback_def
        run_event_def script_onerror_def script_onload_def getPluginEntryCallback_def
        entry_guard_def entry_body_def init_throws_def loadDynamicPlugin_def new_Promise_def
        resolve_def reject_def settle_def spec_deps_def getPluginID_spec_def
        example_manifest_def Let_def)

end
